theory Spec2Isabelle
  imports Main "HOL-Library.Word" "HOL-Library.Sublist"
begin

section \<open>JavaScript strings\<close>

text \<open>
  A JavaScript string is a sequence of UTF-16 code units. File contents are kept in decoded
  form, as \<^verbatim>\<open>readFile(path, "utf-8")\<close> returns them and \<^verbatim>\<open>writeFile\<close> takes them.
\<close>

type_synonym jsstring = "16 word list"

definition js :: "string \<Rightarrow> jsstring" where
  "js s = map of_char s"

text \<open>\<^verbatim>\<open>String.prototype.includes\<close>: the argument occurs somewhere as a contiguous run.\<close>

fun includes_str :: "jsstring \<Rightarrow> jsstring \<Rightarrow> bool" where
  "includes_str [] s = (s = [])"
| "includes_str (c # cs) s = (prefix s (c # cs) \<or> includes_str cs s)"

text \<open>The number of positions of a string at which a given string starts.\<close>

fun occurrences :: "jsstring \<Rightarrow> jsstring \<Rightarrow> nat" where
  "occurrences s [] = (if s = [] then 1 else 0)"
| "occurrences s (c # cs) = (if prefix s (c # cs) then 1 else 0) + occurrences s cs"

subsection \<open>The regular expression of \<^verbatim>\<open>setupBunfigToml\<close>\<close>

text \<open>
  The character class \<^verbatim>\<open>\s\<close> of ECMAScript (white space and line terminators), and the line
  terminators after which \<^verbatim>\<open>^\<close> matches under the \<^verbatim>\<open>m\<close> flag.
\<close>

definition is_space :: "16 word \<Rightarrow> bool" where
  "is_space c \<longleftrightarrow>
     c = 0x0009 \<or> c = 0x000A \<or> c = 0x000B \<or> c = 0x000C \<or> c = 0x000D \<or> c = 0x0020 \<or>
     c = 0x00A0 \<or> c = 0x1680 \<or> (0x2000 \<le> c \<and> c \<le> 0x200A) \<or> c = 0x2028 \<or>
     c = 0x2029 \<or> c = 0x202F \<or> c = 0x205F \<or> c = 0x3000 \<or> c = 0xFEFF"

definition is_line_terminator :: "16 word \<Rightarrow> bool" where
  "is_line_terminator c \<longleftrightarrow> c = 0x000A \<or> c = 0x000D \<or> c = 0x2028 \<or> c = 0x2029"

definition MYORG1 :: jsstring where
  "MYORG1 = [0x22] @ js ''@myorg1'' @ [0x22]"

text \<open>
  \<^verbatim>\<open>"@myorg1"\s+=\<close> matched at the start of a string: the quoted name, a run of at least
  one white-space unit, and an equals sign. The equals sign is no white space, so the greedy
  run is the whole run.
\<close>

definition match_here :: "jsstring \<Rightarrow> bool" where
  "match_here s \<longleftrightarrow>
     prefix MYORG1 s \<and>
     (let r = drop (length MYORG1) s in
        takeWhile is_space r \<noteq> [] \<and> prefix [0x3D] (dropWhile is_space r))"

text \<open>
  \<^verbatim>\<open>/^"@myorg1"\s+=/gm.test(content)\<close> on a fresh expression (\<^verbatim>\<open>lastIndex\<close> is 0): is there
  a match at a position that is the start of the input or follows a line terminator? The
  flag says whether the current position is such a line start.
\<close>

fun test_from :: "bool \<Rightarrow> jsstring \<Rightarrow> bool" where
  "test_from bol [] = (bol \<and> match_here [])"
| "test_from bol (c # cs) = ((bol \<and> match_here (c # cs)) \<or> test_from (is_line_terminator c) cs)"

definition regex_test :: "jsstring \<Rightarrow> bool" where
  "regex_test content = test_from True content"

section \<open>The environment\<close>

text \<open>
  What a \<^verbatim>\<open>catch\<close> clause receives: whether the value is an instance of \<^verbatim>\<open>Error\<close>, its
  \<^verbatim>\<open>code\<close> property when that is a string, and its message.
\<close>

datatype thrown = Thrown (instanceofError: bool) (code: "jsstring option") (message: jsstring)

record info =
  version :: jsstring
  url :: jsstring

datatype event =
    Stdout jsstring
  | WriteFile jsstring jsstring
  | Rm jsstring
  | Download jsstring info
  | Exec jsstring "jsstring list" jsstring

text \<open>
  The world a command runs in: the regular files by path, the outcomes of the coming fallible
  calls (\<open>None\<close>: the call goes through; \<open>Some e\<close>: it throws \<open>e\<close>; an exhausted list: every
  call goes through), the descriptor the remote metadata source currently serves, and the
  effects attempted so far, oldest first.
\<close>

record world =
  files :: "jsstring \<rightharpoonup> jsstring"
  faults :: "thrown option list"
  latest :: info
  trace :: "event list"

text \<open>
  What is fixed for a run and not of this repository: the platform name, \<^verbatim>\<open>path.join\<close> of
  Node, the colour functions of kolorist, which paths lie inside a folder, and what a URL
  serves.
\<close>

record env =
  platform :: jsstring
  path_join :: "jsstring list \<Rightarrow> jsstring"
  green :: "jsstring \<Rightarrow> jsstring"
  red :: "jsstring \<Rightarrow> jsstring"
  inside :: "jsstring \<Rightarrow> jsstring \<Rightarrow> bool"
  served :: "jsstring \<Rightarrow> jsstring"

type_synonym 'a io = "world \<Rightarrow> (thrown + 'a) \<times> world"

definition next_fault :: "world \<Rightarrow> thrown option \<times> world" where
  "next_fault w = (case faults w of [] \<Rightarrow> (None, w) | f # fs \<Rightarrow> (f, w\<lparr>faults := fs\<rparr>))"

definition log_event :: "event \<Rightarrow> world \<Rightarrow> world" where
  "log_event ev w = w\<lparr>trace := trace w @ [ev]\<rparr>"

definition ENOENT :: jsstring where
  "ENOENT = js ''ENOENT''"

definition not_found :: thrown where
  "not_found = Thrown True (Some ENOENT) (js ''no such file or directory'')"

subsection \<open>Sequencing\<close>

text \<open>
  \<open>await\<close> runs a call and hands its value on, an exception ending the sequence;
  \<open>try_catch\<close> hands an exception of its body to the handler.
\<close>

definition return_io :: "'a \<Rightarrow> 'a io" where
  "return_io x w = (Inr x, w)"

definition throw :: "thrown \<Rightarrow> 'a io" where
  "throw err w = (Inl err, w)"

definition await :: "'a io \<Rightarrow> ('a \<Rightarrow> 'b io) \<Rightarrow> 'b io" where
  "await m f w = (case m w of (Inl err, w') \<Rightarrow> (Inl err, w') | (Inr x, w') \<Rightarrow> f x w')"

definition try_catch :: "'a io \<Rightarrow> (thrown \<Rightarrow> 'a io) \<Rightarrow> 'a io" where
  "try_catch m h w = (case m w of (Inl err, w') \<Rightarrow> h err w' | (Inr x, w') \<Rightarrow> (Inr x, w'))"

text \<open>A fallible call: it throws what the world has in store for it, or goes through.\<close>

definition fallible :: "(world \<Rightarrow> (thrown + 'a) \<times> world) \<Rightarrow> 'a io" where
  "fallible ok w = (case next_fault w of (Some err, w') \<Rightarrow> (Inl err, w') | (None, w') \<Rightarrow> ok w')"

subsection \<open>Node\<close>

text \<open>\<^verbatim>\<open>process.stdout.write\<close>, taken not to throw.\<close>

definition stdout_write :: "jsstring \<Rightarrow> unit io" where
  "stdout_write s w = (Inr (), log_event (Stdout s) w)"

text \<open>\<^verbatim>\<open>fs.promises.readFile(path, "utf-8")\<close>: a missing file is the not-found error.\<close>

definition readFile :: "jsstring \<Rightarrow> jsstring io" where
  "readFile p =
     fallible (\<lambda>w. case files w p of None \<Rightarrow> (Inl not_found, w) | Some c \<Rightarrow> (Inr c, w))"

text \<open>\<^verbatim>\<open>fs.promises.writeFile(path, content)\<close>: replaces the whole file.\<close>

definition writeFile :: "jsstring \<Rightarrow> jsstring \<Rightarrow> unit io" where
  "writeFile p c w =
     fallible (\<lambda>w'. (Inr (), w'\<lparr>files := (files w')(p \<mapsto> c)\<rparr>)) (log_event (WriteFile p c) w)"

text \<open>
  \<^verbatim>\<open>fs.promises.rm(folder, { recursive: true })\<close>: directories are not tracked, so that the
  folder is missing is one of the outcomes the world has in store.
\<close>

definition rm :: "env \<Rightarrow> jsstring \<Rightarrow> unit io" where
  "rm e folder w =
     fallible (\<lambda>w'. (Inr (), w'\<lparr>files := (\<lambda>p. if inside e folder p then None else files w' p)\<rparr>))
       (log_event (Rm folder) w)"

subsection \<open>Helpers of the repository outside commands.ts\<close>

text \<open>
  Modelled from the spec: \<^verbatim>\<open>getDenoDownloadUrl\<close> of download.ts is not among the sources.
  "Resolve download descriptor (version + platform-specific URL) from a remote metadata
  source"; a failure is fatal.
\<close>

definition getDenoDownloadUrl :: "info io" where
  "getDenoDownloadUrl = fallible (\<lambda>w. (Inr (latest w), w))"

text \<open>
  Modelled from the spec: \<^verbatim>\<open>fileExists\<close> of utils.ts is not among the sources. It answers
  whether "the expected path" does "already exist", and has no failure of its own.
\<close>

definition fileExists :: "jsstring \<Rightarrow> bool io" where
  "fileExists p w = (Inr (files w p \<noteq> None), w)"

text \<open>
  Modelled from the spec: \<^verbatim>\<open>downloadDeno\<close> of download.ts is not among the sources. "download
  the binary to the expected path from the external source"; a download failure is fatal.
\<close>

definition downloadDeno :: "env \<Rightarrow> jsstring \<Rightarrow> info \<Rightarrow> unit io" where
  "downloadDeno e p i w =
     fallible (\<lambda>w'. (Inr (), w'\<lparr>files := (files w')(p \<mapsto> served e (url i))\<rparr>))
       (log_event (Download p i) w)"

text \<open>
  Modelled from the spec: \<^verbatim>\<open>exec\<close> of utils.ts is not among the sources. It "invokes that
  executable as a subprocess" with the arguments, in a working directory; a non-zero exit is
  fatal. What the subprocess does to the files is left out.
\<close>

definition exec :: "jsstring \<Rightarrow> jsstring list \<Rightarrow> jsstring \<Rightarrow> unit io" where
  "exec bin args cwd w = fallible (\<lambda>w'. (Inr (), w')) (log_event (Exec bin args cwd) w)"

section \<open>commands.ts\<close>

definition NPMRC_FILE :: jsstring where
  "NPMRC_FILE = js ''.npmrc''"

definition BUNFIG_FILE :: jsstring where
  "BUNFIG_FILE = js ''bunfig.toml''"

definition JSR_NPMRC :: jsstring where
  "JSR_NPMRC = js ''@jsr:registry=https://npm.jsr.io'' @ [0x0A]"

definition JSR_BUNFIG :: jsstring where
  "JSR_BUNFIG =
     js ''[install.scopes]'' @ [0x0A] @
     [0x22] @ js ''@jsr'' @ [0x22] @ js '' = '' @ [0x22] @ js ''https://npm.jsr.io/'' @ [0x22] @
     [0x0A]"

definition wrapWithStatus :: "env \<Rightarrow> jsstring \<Rightarrow> unit io \<Rightarrow> unit io" where
  "wrapWithStatus e msg fn =
     await (stdout_write (msg @ js ''...'')) (\<lambda>_.
     try_catch
       (await fn (\<lambda>_. stdout_write (green e (js ''ok'') @ [0x0A])))
       (\<lambda>err. await (stdout_write (red e (js ''error'') @ [0x0A])) (\<lambda>_. throw err)))"

definition setupNpmRc :: "env \<Rightarrow> jsstring \<Rightarrow> unit io" where
  "setupNpmRc e dir =
     (let npmRcPath = path_join e [dir, NPMRC_FILE];
          msg = js ''Setting up '' @ NPMRC_FILE
      in try_catch
           (await (readFile npmRcPath) (\<lambda>content.
              if \<not> includes_str content JSR_NPMRC
              then wrapWithStatus e msg (writeFile npmRcPath (content @ JSR_NPMRC))
              else return_io ()))
           (\<lambda>err. if instanceofError err \<and> code err = Some ENOENT
                  then wrapWithStatus e msg (writeFile npmRcPath JSR_NPMRC)
                  else throw err))"

definition setupBunfigToml :: "env \<Rightarrow> jsstring \<Rightarrow> unit io" where
  "setupBunfigToml e dir =
     (let bunfigPath = path_join e [dir, BUNFIG_FILE];
          msg = js ''Setting up '' @ BUNFIG_FILE
      in try_catch
           (await (readFile bunfigPath) (\<lambda>content.
              if \<not> regex_test content
              then wrapWithStatus e msg (writeFile bunfigPath (content @ JSR_BUNFIG))
              else return_io ()))
           (\<lambda>err. if instanceofError err \<and> code err = Some ENOENT
                  then wrapWithStatus e msg (writeFile bunfigPath JSR_BUNFIG)
                  else throw err))"

record PublishOptions =
  binFolder :: jsstring
  dryRun :: bool
  allowSlowTypes :: bool
  token :: "jsstring option"

text \<open>The argument list \<^verbatim>\<open>publish\<close> builds for the subprocess (\<^verbatim>\<open>args\<close> and its pushes).\<close>

definition publish_args :: "PublishOptions \<Rightarrow> jsstring list" where
  "publish_args options =
     (let args = [js ''publish'', js ''--unstable-bare-node-builtins'',
                  js ''--unstable-sloppy-imports''];
          args = (if dryRun options then args @ [js ''--dry-run''] else args);
          args = (if allowSlowTypes options then args @ [js ''--allow-slow-types''] else args);
          args = (case token options of
                    None \<Rightarrow> args
                  | Some t \<Rightarrow> if t \<noteq> [] then args @ [js ''--token'', t] else args)
      in args)"

definition publish :: "env \<Rightarrow> jsstring \<Rightarrow> PublishOptions \<Rightarrow> unit io" where
  "publish e cwd options =
     await getDenoDownloadUrl (\<lambda>info.
     let binPath = path_join e
           [binFolder options, version info, platform e,
            if platform e = js ''win32'' then js ''deno.exe'' else js ''deno'']
     in
     await (fileExists binPath) (\<lambda>present.
     await (if \<not> present
            then await (try_catch (rm e (binFolder options))
                          (\<lambda>err. if \<not> instanceofError err \<or> code err \<noteq> Some ENOENT
                                 then throw err else return_io ()))
                   (\<lambda>_. downloadDeno e binPath info)
            else return_io ()) (\<lambda>_.
     exec binPath (publish_args options) cwd)))"

section \<open>Observing a run\<close>

text \<open>The effects a run added to the trace, given the worlds before and after it.\<close>

definition new_events :: "world \<Rightarrow> world \<Rightarrow> event list" where
  "new_events w w' = drop (length (trace w)) (trace w')"

text \<open>The file writes among some effects, in order: the path and the contents of each.\<close>

fun writes :: "event list \<Rightarrow> (jsstring \<times> jsstring) list" where
  "writes [] = []"
| "writes (WriteFile p c # evs) = (p, c) # writes evs"
| "writes (ev # evs) = writes evs"

text \<open>
  A concrete environment and an empty world to run the commands in: a Linux machine, paths
  joined with a slash, colours switched off.
\<close>

fun join_slash :: "jsstring list \<Rightarrow> jsstring" where
  "join_slash [] = js ''.''"
| "join_slash [x] = x"
| "join_slash (x # y # ys) = x @ js ''/'' @ join_slash (y # ys)"

definition linux :: env where
  "linux = \<lparr>platform = js ''linux'', path_join = join_slash, green = (\<lambda>s. s), red = (\<lambda>s. s),
            inside = (\<lambda>folder p. prefix (folder @ js ''/'') p), served = (\<lambda>u. u)\<rparr>"

definition deno_info :: info where
  "deno_info = \<lparr>version = js ''1.40.0'', url = js ''https://dl.deno.land/deno.zip''\<rparr>"

definition empty_world :: world where
  "empty_world = \<lparr>files = Map.empty, faults = [], latest = deno_info, trace = []\<rparr>"

text \<open>The empty world with one file in it.\<close>

definition with_file :: "jsstring \<Rightarrow> jsstring \<Rightarrow> world" where
  "with_file p c = empty_world\<lparr>files := [p \<mapsto> c]\<rparr>"

text \<open>An error other than the not-found one.\<close>

definition denied :: thrown where
  "denied = Thrown True (Some (js ''EACCES'')) (js ''permission denied'')"

section \<open>Auxiliary facts\<close>

lemmas io_defs = Let_def await_def try_catch_def return_io_def throw_def fallible_def
  next_fault_def stdout_write_def log_event_def

lemma includes_str_occurrences: "includes_str c s \<longleftrightarrow> 0 < occurrences s c"
  by (induction c) auto

lemma occurrences_short: "length t < length s \<Longrightarrow> occurrences s t = 0"
proof (induction t)
  case Nil
  then show ?case by auto
next
  case (Cons a t)
  have "\<not> prefix s (a # t)"
    using Cons.prems prefix_length_le by fastforce
  then show ?case using Cons by simp
qed

lemma occurrences_self: "s \<noteq> [] \<Longrightarrow> occurrences s s = 1"
  by (cases s) (simp_all add: occurrences_short)

text \<open>
  A line that ends in its only newline cannot start inside what precedes it and run over
  into a copy of itself appended there.
\<close>

lemma no_overlap:
  assumes nl: "nl \<notin> set body" and old: "old \<noteq> []"
    and pre: "prefix (body @ [nl]) (old @ body @ [nl])"
  shows "prefix (body @ [nl]) old"
proof (cases "length (body @ [nl]) \<le> length old")
  case True
  with pre show ?thesis by (metis prefix_length_prefix prefixI)
next
  case False
  then have short: "length old \<le> length body" by simp
  from pre obtain r where r: "old @ body @ [nl] = (body @ [nl]) @ r"
    by (auto simp: prefix_def)
  have "(old @ body @ [nl]) ! length body = nl"
    by (subst r) (simp add: nth_append)
  moreover have "(old @ body @ [nl]) ! length body = (body @ [nl]) ! (length body - length old)"
    using short old by (cases "length body = length old") (auto simp add: nth_append)
  moreover have "length body - length old < length body"
    using old short by (cases old) auto
  ultimately have "body ! (length body - length old) = nl"
    by (simp add: nth_append)
  with \<open>length body - length old < length body\<close> nl show ?thesis
    by (metis nth_mem)
qed

lemma occurrences_appended:
  assumes "nl \<notin> set body" and "\<not> includes_str old (body @ [nl])"
  shows "occurrences (body @ [nl]) (old @ body @ [nl]) = 1"
  using assms(2)
proof (induction old)
  case Nil
  show ?case using occurrences_self [of "body @ [nl]"] by simp
next
  case (Cons a old)
  then have np: "\<not> prefix (body @ [nl]) (a # old)" and ni: "\<not> includes_str old (body @ [nl])"
    by auto
  have "\<not> prefix (body @ [nl]) ((a # old) @ body @ [nl])"
    using no_overlap [OF assms(1), of "a # old"] np by blast
  then show ?case using Cons.IH [OF ni] by simp
qed

lemma newline_not_in_line: "0x0A \<notin> set (js ''@jsr:registry=https://npm.jsr.io'')"
  by (simp add: js_def)

lemma readFile_keeps: "readFile p w = (r, w1) \<Longrightarrow> files w1 = files w \<and> trace w1 = trace w"
  by (auto simp add: readFile_def io_defs split: list.splits option.splits)

subsection \<open>The steps of \<^verbatim>\<open>setupNpmRc\<close>\<close>

lemma wrap_write_effect:
  "trace (snd (wrapWithStatus e msg (writeFile p c) w)) =
     trace w @ [Stdout (msg @ js ''...''), WriteFile p c,
                Stdout (case fst (next_fault w) of
                          None \<Rightarrow> green e (js ''ok'') @ [0x0A]
                        | Some err \<Rightarrow> red e (js ''error'') @ [0x0A])] \<and>
   fst (wrapWithStatus e msg (writeFile p c) w) =
     (case fst (next_fault w) of None \<Rightarrow> Inr () | Some err \<Rightarrow> Inl err)"
  by (simp add: wrapWithStatus_def writeFile_def io_defs split: list.splits option.splits)

lemma setupNpmRc_cases:
  "setupNpmRc e dir w =
     (case readFile (path_join e [dir, NPMRC_FILE]) w of
        (Inl err, w1) \<Rightarrow>
          if instanceofError err \<and> code err = Some ENOENT
          then wrapWithStatus e (js ''Setting up '' @ NPMRC_FILE)
                 (writeFile (path_join e [dir, NPMRC_FILE]) JSR_NPMRC) w1
          else (Inl err, w1)
      | (Inr content, w1) \<Rightarrow>
          if includes_str content JSR_NPMRC then (Inr (), w1)
          else (case wrapWithStatus e (js ''Setting up '' @ NPMRC_FILE)
                       (writeFile (path_join e [dir, NPMRC_FILE]) (content @ JSR_NPMRC)) w1 of
                  (Inl err, w2) \<Rightarrow>
                    if instanceofError err \<and> code err = Some ENOENT
                    then wrapWithStatus e (js ''Setting up '' @ NPMRC_FILE)
                           (writeFile (path_join e [dir, NPMRC_FILE]) JSR_NPMRC) w2
                    else (Inl err, w2)
                | (Inr u, w2) \<Rightarrow> (Inr (), w2)))"
  by (simp add: setupNpmRc_def Let_def try_catch_def await_def return_io_def throw_def
      split: prod.splits sum.splits)

subsection \<open>The regular expression\<close>

lemma equals_not_space: "\<not> is_space 0x3D"
  by (simp add: is_space_def)

lemma match_here_line:
  assumes "ws \<noteq> []" and "\<forall>c\<in>set ws. is_space c"
  shows "match_here (MYORG1 @ ws @ [0x3D] @ post)"
  using assms equals_not_space
  by (simp add: match_here_def)

lemma test_from_line:
  assumes "match_here rest" and "pre = [] \<longrightarrow> bol"
    and "pre \<noteq> [] \<longrightarrow> is_line_terminator (last pre)"
  shows "test_from bol (pre @ rest)"
  using assms(2,3)
proof (induction pre arbitrary: bol)
  case Nil
  then show ?case using assms(1) by (cases rest) simp_all
next
  case (Cons a pre)
  have "test_from (is_line_terminator a) (pre @ rest)"
    using Cons.prems by (intro Cons.IH) (auto split: if_splits)
  then show ?case by simp
qed

subsection \<open>The steps of \<^verbatim>\<open>publish\<close>\<close>

lemma publish_args_eq:
  "publish_args options =
     [js ''publish'', js ''--unstable-bare-node-builtins'', js ''--unstable-sloppy-imports''] @
     (if dryRun options then [js ''--dry-run''] else []) @
     (if allowSlowTypes options then [js ''--allow-slow-types''] else []) @
     (case token options of None \<Rightarrow> [] | Some t \<Rightarrow> if t \<noteq> [] then [js ''--token'', t] else [])"
  by (simp add: publish_args_def split: option.splits)

lemma getDenoDownloadUrl_keeps:
  "getDenoDownloadUrl w = (r, w1) \<Longrightarrow> files w1 = files w \<and> trace w1 = trace w"
  by (auto simp add: getDenoDownloadUrl_def io_defs split: list.splits option.splits)

lemma exec_effect:
  "trace (snd (exec b a c w)) = trace w @ [Exec b a c] \<and> files (snd (exec b a c w)) = files w \<and>
   faults (snd (exec b a c w)) = tl (faults w) \<and>
   fst (exec b a c w) = (case faults w of Some err # _ \<Rightarrow> Inl err | _ \<Rightarrow> Inr ())"
  by (auto simp add: exec_def io_defs split: list.splits option.splits)

lemma rm_effect:
  "trace (snd (rm e f w)) = trace w @ [Rm f] \<and>
   faults (snd (rm e f w)) = tl (faults w) \<and>
   fst (rm e f w) = (case faults w of Some err # _ \<Rightarrow> Inl err | _ \<Rightarrow> Inr ())"
  by (auto simp add: rm_def io_defs split: list.splits option.splits)

lemma downloadDeno_effect:
  "trace (snd (downloadDeno e p i w)) = trace w @ [Download p i] \<and>
   faults (snd (downloadDeno e p i w)) = tl (faults w) \<and>
   fst (downloadDeno e p i w) = (case faults w of Some err # _ \<Rightarrow> Inl err | _ \<Rightarrow> Inr ())"
  by (auto simp add: downloadDeno_def io_defs split: list.splits option.splits)

lemma all_through:
  assumes "set fs \<subseteq> {None}"
  shows "(case fs of Some err # _ \<Rightarrow> Inl err | _ \<Rightarrow> Inr ()) = Inr ()" and "set (tl fs) \<subseteq> {None}"
  using assms by (cases fs; auto split: option.splits)+

lemma publish_from:
  assumes url: "getDenoDownloadUrl w = (Inr info, w1)"
    and bin: "binPath = path_join e [binFolder options, version info, platform e,
                                if platform e = js ''win32'' then js ''deno.exe'' else js ''deno'']"
  shows "publish e cwd options w =
     await (fileExists binPath) (\<lambda>present.
     await (if \<not> present
            then await (try_catch (rm e (binFolder options))
                          (\<lambda>err. if \<not> instanceofError err \<or> code err \<noteq> Some ENOENT
                                 then throw err else return_io ()))
                   (\<lambda>_. downloadDeno e binPath info)
            else return_io ()) (\<lambda>_.
     exec binPath (publish_args options) cwd)) w1"
  by (simp only: publish_def await_def [of getDenoDownloadUrl] url prod.case sum.case Let_def
      bin [symmetric])

lemma publish_present:
  assumes "getDenoDownloadUrl w = (Inr info, w1)"
    and "binPath = path_join e [binFolder options, version info, platform e,
                                if platform e = js ''win32'' then js ''deno.exe'' else js ''deno'']"
    and "fst (fileExists binPath w1) = Inr True"
  shows "publish e cwd options w = exec binPath (publish_args options) cwd w1"
  unfolding publish_from [OF assms(1,2)] using assms(3)
  by (auto simp add: await_def return_io_def fileExists_def)

lemma publish_steps:
  assumes url: "getDenoDownloadUrl w = (Inr info, w1)"
    and bin: "binPath = path_join e [binFolder options, version info, platform e,
                                if platform e = js ''win32'' then js ''deno.exe'' else js ''deno'']"
    and absent: "fst (fileExists binPath w1) = Inr False"
    and rm: "rm e (binFolder options) w1 = (r1, w2)"
    and dl: "downloadDeno e binPath info w2 = (r2, w3)"
    and ex: "exec binPath (publish_args options) cwd w3 = (r3, w4)"
  shows "publish e cwd options w =
     (case r1 of
        Inl err \<Rightarrow>
          if instanceofError err \<and> code err = Some ENOENT
          then (case r2 of Inl err' \<Rightarrow> (Inl err', w3) | Inr _ \<Rightarrow> (r3, w4))
          else (Inl err, w2)
      | Inr _ \<Rightarrow> (case r2 of Inl err' \<Rightarrow> (Inl err', w3) | Inr _ \<Rightarrow> (r3, w4)))"
  unfolding publish_from [OF url bin]
  using absent rm dl ex
  by (auto simp add: await_def try_catch_def return_io_def throw_def fileExists_def
      split: sum.splits)

lemma publish_exec_events:
  assumes "Exec b a d \<in> set (new_events w (snd (publish e cwd options w)))"
  shows "a = publish_args options"
proof -
  obtain r0 w1 where url: "getDenoDownloadUrl w = (r0, w1)"
    by (cases "getDenoDownloadUrl w")
  have t1: "trace w1 = trace w"
    using getDenoDownloadUrl_keeps [OF url] by simp
  show ?thesis
  proof (cases r0)
    case (Inl err)
    then have "publish e cwd options w = (Inl err, w1)"
      using url by (simp add: publish_def await_def)
    then show ?thesis using assms t1 by (simp add: new_events_def)
  next
    case (Inr info)
    define binPath where "binPath = path_join e [binFolder options, version info, platform e,
        if platform e = js ''win32'' then js ''deno.exe'' else js ''deno'']"
    note url' = url [unfolded Inr]
    show ?thesis
    proof (cases "files w1 binPath = None")
      case False
      then have "publish e cwd options w = exec binPath (publish_args options) cwd w1"
        unfolding publish_from [OF url' binPath_def]
        by (auto simp add: await_def return_io_def fileExists_def)
      then show ?thesis
        using assms t1 exec_effect [of binPath "publish_args options" cwd w1]
        by (simp add: new_events_def)
    next
      case True
      then have absent: "fst (fileExists binPath w1) = Inr False"
        by (simp add: fileExists_def)
      obtain r1 w2 where rm: "rm e (binFolder options) w1 = (r1, w2)"
        by (cases "rm e (binFolder options) w1")
      obtain r2 w3 where dl: "downloadDeno e binPath info w2 = (r2, w3)"
        by (cases "downloadDeno e binPath info w2")
      obtain r3 w4 where ex: "exec binPath (publish_args options) cwd w3 = (r3, w4)"
        by (cases "exec binPath (publish_args options) cwd w3")
      note run = publish_steps [OF url' binPath_def absent rm dl ex]
      have t2: "trace w2 = trace w @ [Rm (binFolder options)]"
        using rm_effect [of e "binFolder options" w1] rm t1 by simp
      have t3: "trace w3 = trace w @ [Rm (binFolder options), Download binPath info]"
        using downloadDeno_effect [of e binPath info w2] dl t2 by simp
      have t4: "trace w4 = trace w @ [Rm (binFolder options), Download binPath info,
                                      Exec binPath (publish_args options) cwd]"
        using exec_effect [of binPath "publish_args options" cwd w3] ex t3 by simp
      show ?thesis
        using assms unfolding run new_events_def
        using t2 t3 t4 by (auto split: sum.splits if_splits)
    qed
  qed
qed

lemma token_not_fixed_flag:
  "js ''--token'' \<notin> set [js ''publish'', js ''--unstable-bare-node-builtins'',
     js ''--unstable-sloppy-imports'', js ''--dry-run'', js ''--allow-slow-types'']"
  by (simp add: js_def)

section \<open>The status wrapper\<close>

text \<open>
  C8: for every label and every action, \<^verbatim>\<open>wrapWithStatus\<close> first prints the label followed by
  three dots and runs the action in the world where that is printed; it then prints the
  green "ok" line when the action returned and the red "error" line when it threw, and its own
  outcome is the outcome of the action: it returns when the action returns, and throws the
  very value the action threw.
\<close>

theorem wrapWithStatus_reports:
  "wrapWithStatus e label action w =
     (let started = log_event (Stdout (label @ js ''...'')) w;
          (r, w') = action started
      in (r, log_event (Stdout (case r of Inr _ \<Rightarrow> green e (js ''ok'') @ [0x0A]
                                        | Inl _ \<Rightarrow> red e (js ''error'') @ [0x0A])) w'))"
  by (simp add: wrapWithStatus_def await_def try_catch_def stdout_write_def throw_def
      split: prod.splits sum.splits)

theorem wrapWithStatus_reports_witness:
  "wrapWithStatus linux (js ''Setting up'') (return_io ()) empty_world =
     (Inr (), empty_world\<lparr>trace := [Stdout (js ''Setting up...''), Stdout (js ''ok'' @ [0x0A])]\<rparr>) \<and>
   wrapWithStatus linux (js ''Setting up'') (throw not_found) empty_world =
     (Inl not_found,
      empty_world\<lparr>trace := [Stdout (js ''Setting up...''), Stdout (js ''error'' @ [0x0A])]\<rparr>)"
  using wrapWithStatus_reports [of linux "js ''Setting up''" "return_io ()" empty_world]
    wrapWithStatus_reports [of linux "js ''Setting up''" "throw not_found" empty_world]
  by (simp add: return_io_def throw_def log_event_def linux_def empty_world_def js_def)

section \<open>Setting up .npmrc\<close>

text \<open>
  C5: when reading \<^verbatim>\<open>.npmrc\<close> in the directory fails with the not-found error, and the
  write goes through, \<^verbatim>\<open>setupNpmRc\<close> returns and the file then holds the registry line
  \<open>JSR_NPMRC\<close> and nothing else.
\<close>

theorem setupNpmRc_creates:
  assumes "readFile (path_join e [dir, NPMRC_FILE]) w = (Inl err, w1)"
    and "instanceofError err" and "code err = Some ENOENT"
    and "fst (next_fault w1) = None"
  shows "fst (setupNpmRc e dir w) = Inr () \<and>
         files (snd (setupNpmRc e dir w)) (path_join e [dir, NPMRC_FILE]) = Some JSR_NPMRC"
  using assms
  by (simp add: setupNpmRc_def wrapWithStatus_def writeFile_def io_defs
      split: list.splits option.splits)

theorem setupNpmRc_creates_witness:
  "readFile (path_join linux [js ''/proj'', NPMRC_FILE]) empty_world = (Inl not_found, empty_world) \<and>
   fst (setupNpmRc linux (js ''/proj'') empty_world) = Inr () \<and>
   files (snd (setupNpmRc linux (js ''/proj'') empty_world)) (js ''/proj/.npmrc'') = Some JSR_NPMRC"
proof -
  have r: "readFile (path_join linux [js ''/proj'', NPMRC_FILE]) empty_world = (Inl not_found, empty_world)"
    by (simp add: readFile_def io_defs empty_world_def)
  have p: "path_join linux [js ''/proj'', NPMRC_FILE] = js ''/proj/.npmrc''"
    by (simp add: linux_def NPMRC_FILE_def js_def)
  show ?thesis
    using r setupNpmRc_creates [OF r] p by (simp add: not_found_def next_fault_def empty_world_def)
qed

text \<open>
  C6: when \<^verbatim>\<open>.npmrc\<close> is read and its contents include the registry line, \<^verbatim>\<open>setupNpmRc\<close>
  returns in the world the read left: no file has changed and nothing was written or
  printed.
\<close>

theorem setupNpmRc_keeps:
  assumes "readFile (path_join e [dir, NPMRC_FILE]) w = (Inr content, w1)"
    and "includes_str content JSR_NPMRC"
  shows "setupNpmRc e dir w = (Inr (), w1) \<and> files w1 = files w \<and> trace w1 = trace w"
  using assms readFile_keeps [OF assms(1)]
  by (simp add: setupNpmRc_def io_defs)

theorem setupNpmRc_keeps_witness:
  "readFile (path_join linux [js ''/proj'', NPMRC_FILE])
       (with_file (js ''/proj/.npmrc'') (js ''save-exact=true'' @ [0x0A] @ JSR_NPMRC)) =
     (Inr (js ''save-exact=true'' @ [0x0A] @ JSR_NPMRC),
      with_file (js ''/proj/.npmrc'') (js ''save-exact=true'' @ [0x0A] @ JSR_NPMRC)) \<and>
   includes_str (js ''save-exact=true'' @ [0x0A] @ JSR_NPMRC) JSR_NPMRC \<and>
   setupNpmRc linux (js ''/proj'')
       (with_file (js ''/proj/.npmrc'') (js ''save-exact=true'' @ [0x0A] @ JSR_NPMRC)) =
     (Inr (), with_file (js ''/proj/.npmrc'') (js ''save-exact=true'' @ [0x0A] @ JSR_NPMRC))"
proof -
  let ?c = "js ''save-exact=true'' @ [0x0A] @ JSR_NPMRC"
  let ?w = "with_file (js ''/proj/.npmrc'') ?c"
  have p: "path_join linux [js ''/proj'', NPMRC_FILE] = js ''/proj/.npmrc''"
    by (simp add: linux_def NPMRC_FILE_def js_def)
  have r: "readFile (path_join linux [js ''/proj'', NPMRC_FILE]) ?w = (Inr ?c, ?w)"
    unfolding p by (simp add: readFile_def io_defs with_file_def empty_world_def)
  have i: "includes_str ?c JSR_NPMRC"
    by (simp add: JSR_NPMRC_def js_def)
  show ?thesis
    using r i setupNpmRc_keeps [OF r i] by simp
qed

text \<open>
  C7: when \<^verbatim>\<open>.npmrc\<close> is read, its contents lack the registry line and the write goes
  through, \<^verbatim>\<open>setupNpmRc\<close> writes the file once, with the old contents followed by the
  registry line; the line occurred nowhere in the old contents and occurs exactly once in
  the new ones.
\<close>

theorem setupNpmRc_appends_once:
  assumes "readFile (path_join e [dir, NPMRC_FILE]) w = (Inr content, w1)"
    and "\<not> includes_str content JSR_NPMRC"
    and "fst (next_fault w1) = None"
  shows "fst (setupNpmRc e dir w) = Inr () \<and>
         files (snd (setupNpmRc e dir w)) (path_join e [dir, NPMRC_FILE]) =
           Some (content @ JSR_NPMRC) \<and>
         new_events w (snd (setupNpmRc e dir w)) =
           [Stdout (js ''Setting up '' @ NPMRC_FILE @ js ''...''),
            WriteFile (path_join e [dir, NPMRC_FILE]) (content @ JSR_NPMRC),
            Stdout (green e (js ''ok'') @ [0x0A])] \<and>
         occurrences JSR_NPMRC content = 0 \<and>
         occurrences JSR_NPMRC (content @ JSR_NPMRC) = 1"
proof -
  have run: "fst (setupNpmRc e dir w) = Inr () \<and>
         files (snd (setupNpmRc e dir w)) (path_join e [dir, NPMRC_FILE]) =
           Some (content @ JSR_NPMRC)"
    using assms
    by (simp add: setupNpmRc_def wrapWithStatus_def writeFile_def io_defs
        split: list.splits option.splits)
  have ev: "new_events w (snd (setupNpmRc e dir w)) =
           [Stdout (js ''Setting up '' @ NPMRC_FILE @ js ''...''),
            WriteFile (path_join e [dir, NPMRC_FILE]) (content @ JSR_NPMRC),
            Stdout (green e (js ''ok'') @ [0x0A])]"
    using assms readFile_keeps [OF assms(1)]
    by (simp add: setupNpmRc_def wrapWithStatus_def writeFile_def io_defs new_events_def
        split: list.splits option.splits)
  have none: "occurrences JSR_NPMRC content = 0"
    using assms(2) by (simp add: includes_str_occurrences)
  have one: "occurrences JSR_NPMRC (content @ JSR_NPMRC) = 1"
    using occurrences_appended [OF newline_not_in_line, of content] assms(2)
    by (simp add: JSR_NPMRC_def)
  from run ev none one show ?thesis by simp
qed

theorem setupNpmRc_appends_once_witness:
  "readFile (path_join linux [js ''/proj'', NPMRC_FILE])
       (with_file (js ''/proj/.npmrc'') (js ''save-exact=true'' @ [0x0A])) =
     (Inr (js ''save-exact=true'' @ [0x0A]),
      with_file (js ''/proj/.npmrc'') (js ''save-exact=true'' @ [0x0A])) \<and>
   \<not> includes_str (js ''save-exact=true'' @ [0x0A]) JSR_NPMRC \<and>
   files (snd (setupNpmRc linux (js ''/proj'')
       (with_file (js ''/proj/.npmrc'') (js ''save-exact=true'' @ [0x0A])))) (js ''/proj/.npmrc'') =
     Some (js ''save-exact=true'' @ [0x0A] @ JSR_NPMRC) \<and>
   occurrences JSR_NPMRC (js ''save-exact=true'' @ [0x0A] @ JSR_NPMRC) = 1"
proof -
  let ?c = "js ''save-exact=true'' @ [0x0A]"
  let ?w = "with_file (js ''/proj/.npmrc'') ?c"
  have p: "path_join linux [js ''/proj'', NPMRC_FILE] = js ''/proj/.npmrc''"
    by (simp add: linux_def NPMRC_FILE_def js_def)
  have r: "readFile (path_join linux [js ''/proj'', NPMRC_FILE]) ?w = (Inr ?c, ?w)"
    unfolding p by (simp add: readFile_def io_defs with_file_def empty_world_def)
  have i: "\<not> includes_str ?c JSR_NPMRC"
    by (simp add: JSR_NPMRC_def js_def)
  have f: "fst (next_fault ?w) = None"
    by (simp add: next_fault_def with_file_def empty_world_def)
  show ?thesis
    using r i setupNpmRc_appends_once [OF r i f] p by simp
qed

text \<open>
  C2, as amended: the registry line is \<^verbatim>\<open>@jsr:registry=https://npm.jsr.io\<close> with a newline
  after it and no slash at the end of the URL, and the writes of \<^verbatim>\<open>setupNpmRc\<close>, all to
  \<^verbatim>\<open>.npmrc\<close> in the directory, are these. When the read fails with the not-found error
  (the path that creates the file), one write, of that line alone; when it fails otherwise,
  none. When the file is read and includes the line, none. When the file is read and lacks
  the line (the path that appends), the write of the old contents followed by that line;
  nothing more when that write goes through or throws anything but the not-found error, and
  when it throws the not-found error, the handler's write of the line alone after it.
\<close>

theorem setupNpmRc_registry_line:
  "JSR_NPMRC = js ''@jsr:registry=https://npm.jsr.io'' @ [0x0A] \<and>
   writes (new_events w (snd (setupNpmRc e dir w))) =
     (case readFile (path_join e [dir, NPMRC_FILE]) w of
        (Inl err, w1) \<Rightarrow>
          if instanceofError err \<and> code err = Some ENOENT
          then [(path_join e [dir, NPMRC_FILE], JSR_NPMRC)]
          else []
      | (Inr content, w1) \<Rightarrow>
          if includes_str content JSR_NPMRC then []
          else (path_join e [dir, NPMRC_FILE], content @ JSR_NPMRC) #
               (case fst (next_fault w1) of
                  None \<Rightarrow> []
                | Some err \<Rightarrow>
                    if instanceofError err \<and> code err = Some ENOENT
                    then [(path_join e [dir, NPMRC_FILE], JSR_NPMRC)]
                    else []))"
proof -
  let ?p = "path_join e [dir, NPMRC_FILE]"
  let ?m = "js ''Setting up '' @ NPMRC_FILE"
  obtain r w1 where rd: "readFile ?p w = (r, w1)"
    by (cases "readFile ?p w")
  have t1: "trace w1 = trace w"
    using readFile_keeps [OF rd] by simp
  have one: "writes (new_events w (snd (wrapWithStatus e ?m (writeFile ?p c) w1))) = [(?p, c)]" for c
    using wrap_write_effect [of e ?m ?p c w1] t1 by (simp add: new_events_def)
  have two: "writes (new_events w (snd (wrapWithStatus e ?m (writeFile ?p c')
               (snd (wrapWithStatus e ?m (writeFile ?p c) w1))))) = [(?p, c), (?p, c')]" for c c'
    using wrap_write_effect [of e ?m ?p c w1]
      wrap_write_effect [of e ?m ?p c' "snd (wrapWithStatus e ?m (writeFile ?p c) w1)"] t1
    by (simp add: new_events_def)
  have none: "writes (new_events w w1) = []"
    using t1 by (simp add: new_events_def)
  have run: "writes (new_events w (snd (setupNpmRc e dir w))) =
     (case readFile ?p w of
        (Inl err, w1) \<Rightarrow>
          if instanceofError err \<and> code err = Some ENOENT then [(?p, JSR_NPMRC)] else []
      | (Inr content, w1) \<Rightarrow>
          if includes_str content JSR_NPMRC then []
          else (?p, content @ JSR_NPMRC) #
               (case fst (next_fault w1) of
                  None \<Rightarrow> []
                | Some err \<Rightarrow>
                    if instanceofError err \<and> code err = Some ENOENT
                    then [(?p, JSR_NPMRC)] else []))"
  proof (cases r)
    case (Inl err)
    then show ?thesis
      unfolding setupNpmRc_cases rd using one none by simp
  next
    case (Inr content)
    show ?thesis
    proof (cases "includes_str content JSR_NPMRC")
      case True
      then show ?thesis
        unfolding setupNpmRc_cases rd Inr using none by simp
    next
      case False
      obtain r2 w2 where wr: "wrapWithStatus e ?m (writeFile ?p (content @ JSR_NPMRC)) w1 = (r2, w2)"
        by (cases "wrapWithStatus e ?m (writeFile ?p (content @ JSR_NPMRC)) w1")
      have r2: "r2 = (case fst (next_fault w1) of None \<Rightarrow> Inr () | Some err \<Rightarrow> Inl err)"
        using wrap_write_effect [of e ?m ?p "content @ JSR_NPMRC" w1] wr by simp
      have w2: "w2 = snd (wrapWithStatus e ?m (writeFile ?p (content @ JSR_NPMRC)) w1)"
        using wr by simp
      show ?thesis
        unfolding setupNpmRc_cases rd Inr using False wr r2
          one [of "content @ JSR_NPMRC"] two [of JSR_NPMRC "content @ JSR_NPMRC"]
        by (auto simp add: w2 [symmetric] split: option.splits)
    qed
  qed
  show ?thesis
    using run by (simp add: JSR_NPMRC_def)
qed

theorem setupNpmRc_registry_line_witness:
  "writes (new_events empty_world (snd (setupNpmRc linux (js ''/proj'') empty_world))) =
     [(js ''/proj/.npmrc'', js ''@jsr:registry=https://npm.jsr.io'' @ [0x0A])] \<and>
   writes (new_events (with_file (js ''/proj/.npmrc'') (js ''save-exact=true'' @ [0x0A]))
      (snd (setupNpmRc linux (js ''/proj'')
              (with_file (js ''/proj/.npmrc'') (js ''save-exact=true'' @ [0x0A]))))) =
     [(js ''/proj/.npmrc'',
       js ''save-exact=true'' @ [0x0A] @ js ''@jsr:registry=https://npm.jsr.io'' @ [0x0A])]"
proof -
  let ?c = "js ''save-exact=true'' @ [0x0A]"
  let ?w = "with_file (js ''/proj/.npmrc'') ?c"
  have p: "path_join linux [js ''/proj'', NPMRC_FILE] = js ''/proj/.npmrc''"
    by (simp add: linux_def NPMRC_FILE_def js_def)
  have r0: "readFile (js ''/proj/.npmrc'') empty_world = (Inl not_found, empty_world)"
    by (simp add: readFile_def io_defs empty_world_def)
  have n: "instanceofError not_found" "code not_found = Some ENOENT"
    by (simp_all add: not_found_def)
  have r1: "readFile (js ''/proj/.npmrc'') ?w = (Inr ?c, ?w)"
    by (simp add: readFile_def io_defs with_file_def empty_world_def)
  have i: "\<not> includes_str ?c JSR_NPMRC"
    by (simp add: JSR_NPMRC_def js_def)
  have f: "fst (next_fault ?w) = None"
    by (simp add: next_fault_def with_file_def empty_world_def)
  have l: "JSR_NPMRC = js ''@jsr:registry=https://npm.jsr.io'' @ [0x0A]"
    by (simp add: JSR_NPMRC_def)
  have a: "writes (new_events empty_world (snd (setupNpmRc linux (js ''/proj'') empty_world))) =
             [(js ''/proj/.npmrc'', JSR_NPMRC)]"
    using setupNpmRc_registry_line [of empty_world linux "js ''/proj''"]
    unfolding p r0 using n by simp
  have b: "writes (new_events ?w (snd (setupNpmRc linux (js ''/proj'') ?w))) =
             [(js ''/proj/.npmrc'', ?c @ JSR_NPMRC)]"
    using setupNpmRc_registry_line [of ?w linux "js ''/proj''"]
    unfolding p r1 using i f by simp
  show ?thesis
    using a b unfolding l by simp
qed

text \<open>
  C2 as stated fails: in a directory without \<^verbatim>\<open>.npmrc\<close> the file written holds the line
  without the slash, and the literal \<^verbatim>\<open>@jsr:registry=https://npm.jsr.io/\<close> occurs nowhere
  in it.
\<close>

theorem setupNpmRc_registry_line_counterexample:
  "files (snd (setupNpmRc linux (js ''/proj'') empty_world)) (js ''/proj/.npmrc'') =
     Some (js ''@jsr:registry=https://npm.jsr.io'' @ [0x0A]) \<and>
   \<not> includes_str (js ''@jsr:registry=https://npm.jsr.io'' @ [0x0A])
         (js ''@jsr:registry=https://npm.jsr.io/'')"
proof -
  have p: "path_join linux [js ''/proj'', NPMRC_FILE] = js ''/proj/.npmrc''"
    by (simp add: linux_def NPMRC_FILE_def js_def)
  have "files (snd (setupNpmRc linux (js ''/proj'') empty_world)) (js ''/proj/.npmrc'') =
     Some JSR_NPMRC"
    unfolding setupNpmRc_def p
    by (simp add: wrapWithStatus_def readFile_def writeFile_def io_defs empty_world_def not_found_def)
  moreover have "\<not> includes_str (js ''@jsr:registry=https://npm.jsr.io'' @ [0x0A])
         (js ''@jsr:registry=https://npm.jsr.io/'')"
    by (simp add: js_def)
  ultimately show ?thesis by (simp add: JSR_NPMRC_def)
qed

section \<open>Setting up bunfig.toml\<close>

text \<open>
  C9: when \<^verbatim>\<open>bunfig.toml\<close> is read and its contents have, at the start or right after a line
  terminator, the quoted name \<^verbatim>\<open>"@myorg1"\<close>, then white space, then an equals sign,
  \<^verbatim>\<open>setupBunfigToml\<close> returns in the world the read left: nothing is written, whether or not
  the block for the \<^verbatim>\<open>"@jsr"\<close> scope is in the file.
\<close>

theorem setupBunfigToml_myorg1_line:
  assumes "readFile (path_join e [dir, BUNFIG_FILE]) w = (Inr content, w1)"
    and "content = pre @ MYORG1 @ ws @ [0x3D] @ post"
    and "pre = [] \<or> is_line_terminator (last pre)"
    and "ws \<noteq> []" and "\<forall>c\<in>set ws. is_space c"
  shows "setupBunfigToml e dir w = (Inr (), w1) \<and> files w1 = files w \<and> trace w1 = trace w"
proof -
  have "regex_test content"
    unfolding regex_test_def assms(2)
    using match_here_line [OF assms(4,5)] assms(3) by (intro test_from_line) auto
  then show ?thesis
    using assms(1) readFile_keeps [OF assms(1)] by (simp add: setupBunfigToml_def io_defs)
qed

theorem setupBunfigToml_myorg1_line_witness:
  "readFile (path_join linux [js ''/proj'', BUNFIG_FILE])
       (with_file (js ''/proj/bunfig.toml'')
          (js ''[install.scopes]'' @ [0x0A] @ MYORG1 @ js '' = 1'')) =
     (Inr (js ''[install.scopes]'' @ [0x0A] @ MYORG1 @ js '' = 1''),
      with_file (js ''/proj/bunfig.toml'') (js ''[install.scopes]'' @ [0x0A] @ MYORG1 @ js '' = 1'')) \<and>
   \<not> includes_str (js ''[install.scopes]'' @ [0x0A] @ MYORG1 @ js '' = 1'') JSR_BUNFIG \<and>
   setupBunfigToml linux (js ''/proj'')
       (with_file (js ''/proj/bunfig.toml'')
          (js ''[install.scopes]'' @ [0x0A] @ MYORG1 @ js '' = 1'')) =
     (Inr (), with_file (js ''/proj/bunfig.toml'')
          (js ''[install.scopes]'' @ [0x0A] @ MYORG1 @ js '' = 1''))"
proof -
  let ?c = "js ''[install.scopes]'' @ [0x0A] @ MYORG1 @ js '' = 1''"
  let ?w = "with_file (js ''/proj/bunfig.toml'') ?c"
  have p: "path_join linux [js ''/proj'', BUNFIG_FILE] = js ''/proj/bunfig.toml''"
    by (simp add: linux_def BUNFIG_FILE_def js_def)
  have r: "readFile (path_join linux [js ''/proj'', BUNFIG_FILE]) ?w = (Inr ?c, ?w)"
    unfolding p by (simp add: readFile_def io_defs with_file_def empty_world_def)
  have c: "?c = (js ''[install.scopes]'' @ [0x0A]) @ MYORG1 @ js '' '' @ [0x3D] @ js '' 1''"
    by (simp add: js_def)
  have t: "(js ''[install.scopes]'' @ [0x0A]) = [] \<or>
           is_line_terminator (last (js ''[install.scopes]'' @ [0x0A]))"
    by (simp add: is_line_terminator_def)
  have s: "js '' '' \<noteq> []" "\<forall>c\<in>set (js '' ''). is_space c"
    by (simp_all add: js_def is_space_def)
  have n: "\<not> includes_str ?c JSR_BUNFIG"
    by (simp add: JSR_BUNFIG_def MYORG1_def js_def)
  show ?thesis
    using r n setupBunfigToml_myorg1_line [OF r c t s] by simp
qed

text \<open>
  C1 does not hold of the code: in a directory without \<^verbatim>\<open>bunfig.toml\<close> the first call
  creates the file with the scope block, and the second call, whose test looks for
  \<^verbatim>\<open>"@myorg1"\<close> and not for the \<^verbatim>\<open>"@jsr"\<close> it writes, appends the block once more.
\<close>

theorem setupBunfigToml_appends_again:
  "files (snd (setupBunfigToml linux (js ''/proj'') empty_world)) (js ''/proj/bunfig.toml'') =
     Some JSR_BUNFIG \<and>
   files (snd (setupBunfigToml linux (js ''/proj'')
                 (snd (setupBunfigToml linux (js ''/proj'') empty_world))))
       (js ''/proj/bunfig.toml'') =
     Some (JSR_BUNFIG @ JSR_BUNFIG) \<and>
   JSR_BUNFIG @ JSR_BUNFIG \<noteq> JSR_BUNFIG"
proof -
  have p: "path_join linux [js ''/proj'', BUNFIG_FILE] = js ''/proj/bunfig.toml''"
    by (simp add: linux_def BUNFIG_FILE_def js_def)
  have t: "\<not> regex_test JSR_BUNFIG"
    by (simp add: regex_test_def JSR_BUNFIG_def js_def match_here_def MYORG1_def
        is_line_terminator_def)
  have one: "setupBunfigToml linux (js ''/proj'') empty_world =
      (Inr (), \<lparr>files = [js ''/proj/bunfig.toml'' \<mapsto> JSR_BUNFIG], faults = [], latest = deno_info,
         trace = [Stdout (js ''Setting up '' @ BUNFIG_FILE @ js ''...''),
                  WriteFile (js ''/proj/bunfig.toml'') JSR_BUNFIG,
                  Stdout (green linux (js ''ok'') @ [0x0A])]\<rparr>)"
    unfolding setupBunfigToml_def p
    by (simp add: wrapWithStatus_def readFile_def writeFile_def io_defs empty_world_def not_found_def)
  have two: "files (snd (setupBunfigToml linux (js ''/proj'')
                 (snd (setupBunfigToml linux (js ''/proj'') empty_world))))
       (js ''/proj/bunfig.toml'') = Some (JSR_BUNFIG @ JSR_BUNFIG)"
    unfolding one unfolding setupBunfigToml_def p using t
    by (simp add: wrapWithStatus_def readFile_def writeFile_def io_defs)
  have ne: "JSR_BUNFIG @ JSR_BUNFIG \<noteq> JSR_BUNFIG"
    by (simp add: JSR_BUNFIG_def)
  from one two ne show ?thesis by simp
qed

section \<open>Publishing\<close>

text \<open>
  C3, as amended: when the download descriptor is resolved and the binary is at the computed
  path, \<^verbatim>\<open>publish\<close> does one thing, the call of the subprocess: nothing is deleted or
  downloaded and no file changes. The arguments are \<^verbatim>\<open>publish\<close>,
  \<^verbatim>\<open>--unstable-bare-node-builtins\<close>, \<^verbatim>\<open>--unstable-sloppy-imports\<close>, then \<^verbatim>\<open>--dry-run\<close> iff
  \<^verbatim>\<open>dryRun\<close>, then \<^verbatim>\<open>--allow-slow-types\<close> iff \<^verbatim>\<open>allowSlowTypes\<close>, then \<^verbatim>\<open>--token\<close> and the
  token iff the token is a string that is not empty.
\<close>

theorem publish_binary_present:
  assumes "getDenoDownloadUrl w = (Inr info, w1)"
    and "binPath = path_join e [binFolder options, version info, platform e,
                                if platform e = js ''win32'' then js ''deno.exe'' else js ''deno'']"
    and "fst (fileExists binPath w1) = Inr True"
  shows "new_events w (snd (publish e cwd options w)) =
           [Exec binPath
              ([js ''publish'', js ''--unstable-bare-node-builtins'',
                js ''--unstable-sloppy-imports''] @
               (if dryRun options then [js ''--dry-run''] else []) @
               (if allowSlowTypes options then [js ''--allow-slow-types''] else []) @
               (case token options of
                  None \<Rightarrow> [] | Some t \<Rightarrow> if t \<noteq> [] then [js ''--token'', t] else []))
              cwd] \<and>
         files (snd (publish e cwd options w)) = files w"
proof -
  have run: "publish e cwd options w = exec binPath (publish_args options) cwd w1"
    using publish_present [OF assms] .
  show ?thesis
    unfolding run new_events_def publish_args_eq [symmetric]
    using exec_effect [of binPath "publish_args options" cwd w1]
      getDenoDownloadUrl_keeps [OF assms(1)]
    by simp
qed

theorem publish_binary_present_witness:
  "getDenoDownloadUrl (with_file (js ''/bin/1.40.0/linux/deno'') (js ''ELF'')) =
     (Inr deno_info, with_file (js ''/bin/1.40.0/linux/deno'') (js ''ELF'')) \<and>
   fst (fileExists (js ''/bin/1.40.0/linux/deno'')
          (with_file (js ''/bin/1.40.0/linux/deno'') (js ''ELF''))) = Inr True \<and>
   new_events (with_file (js ''/bin/1.40.0/linux/deno'') (js ''ELF''))
     (snd (publish linux (js ''/proj'')
             \<lparr>binFolder = js ''/bin'', dryRun = True, allowSlowTypes = False,
                token = Some (js ''abc'')\<rparr>
             (with_file (js ''/bin/1.40.0/linux/deno'') (js ''ELF'')))) =
     [Exec (js ''/bin/1.40.0/linux/deno'')
        [js ''publish'', js ''--unstable-bare-node-builtins'', js ''--unstable-sloppy-imports'',
         js ''--dry-run'', js ''--token'', js ''abc'']
        (js ''/proj'')]"
proof -
  let ?w = "with_file (js ''/bin/1.40.0/linux/deno'') (js ''ELF'')"
  let ?o = "\<lparr>binFolder = js ''/bin'', dryRun = True, allowSlowTypes = False,
              token = Some (js ''abc'')\<rparr>"
  have u: "getDenoDownloadUrl ?w = (Inr deno_info, ?w)"
    by (simp add: getDenoDownloadUrl_def io_defs with_file_def empty_world_def)
  have p: "js ''/bin/1.40.0/linux/deno'' =
      path_join linux [binFolder ?o, version deno_info, platform linux,
                       if platform linux = js ''win32'' then js ''deno.exe'' else js ''deno'']"
    by (simp add: linux_def deno_info_def js_def)
  have f: "fst (fileExists (js ''/bin/1.40.0/linux/deno'') ?w) = Inr True"
    by (simp add: fileExists_def with_file_def)
  have a: "js ''abc'' \<noteq> []"
    by (simp add: js_def)
  show ?thesis
    using u f a publish_binary_present [OF u p f, of "js ''/proj''"] by simp
qed

text \<open>
  C3 as stated fails where the token supplied is the empty string: the binary is present,
  a token is given, and the argument list ends after \<^verbatim>\<open>--dry-run\<close>.
\<close>

theorem publish_token_supplied_counterexample:
  "token \<lparr>binFolder = js ''/bin'', dryRun = True, allowSlowTypes = False, token = Some []\<rparr> \<noteq> None \<and>
   fst (fileExists (js ''/bin/1.40.0/linux/deno'')
          (with_file (js ''/bin/1.40.0/linux/deno'') (js ''ELF''))) = Inr True \<and>
   new_events (with_file (js ''/bin/1.40.0/linux/deno'') (js ''ELF''))
     (snd (publish linux (js ''/proj'')
             \<lparr>binFolder = js ''/bin'', dryRun = True, allowSlowTypes = False, token = Some []\<rparr>
             (with_file (js ''/bin/1.40.0/linux/deno'') (js ''ELF'')))) =
     [Exec (js ''/bin/1.40.0/linux/deno'')
        [js ''publish'', js ''--unstable-bare-node-builtins'', js ''--unstable-sloppy-imports'',
         js ''--dry-run'']
        (js ''/proj'')] \<and>
   js ''--token'' \<notin> set [js ''publish'', js ''--unstable-bare-node-builtins'',
                           js ''--unstable-sloppy-imports'', js ''--dry-run'']"
proof -
  let ?w = "with_file (js ''/bin/1.40.0/linux/deno'') (js ''ELF'')"
  let ?o = "\<lparr>binFolder = js ''/bin'', dryRun = True, allowSlowTypes = False, token = Some []\<rparr>"
  have u: "getDenoDownloadUrl ?w = (Inr deno_info, ?w)"
    by (simp add: getDenoDownloadUrl_def io_defs with_file_def empty_world_def)
  have p: "js ''/bin/1.40.0/linux/deno'' =
      path_join linux [binFolder ?o, version deno_info, platform linux,
                       if platform linux = js ''win32'' then js ''deno.exe'' else js ''deno'']"
    by (simp add: linux_def deno_info_def js_def)
  have f: "fst (fileExists (js ''/bin/1.40.0/linux/deno'') ?w) = Inr True"
    by (simp add: fileExists_def with_file_def)
  have run: "publish linux (js ''/proj'') ?o ?w =
      (Inr (), ?w\<lparr>trace := [Exec (js ''/bin/1.40.0/linux/deno'')
        [js ''publish'', js ''--unstable-bare-node-builtins'', js ''--unstable-sloppy-imports'',
         js ''--dry-run'']
        (js ''/proj'')]\<rparr>)"
    unfolding publish_present [OF u p f]
    by (simp add: exec_def io_defs with_file_def empty_world_def publish_args_def)
  have ev: "new_events ?w (snd (publish linux (js ''/proj'') ?o ?w)) =
      [Exec (js ''/bin/1.40.0/linux/deno'')
        [js ''publish'', js ''--unstable-bare-node-builtins'', js ''--unstable-sloppy-imports'',
         js ''--dry-run'']
        (js ''/proj'')]"
    unfolding run by (simp add: new_events_def with_file_def empty_world_def)
  have n: "js ''--token'' \<notin> set [js ''publish'', js ''--unstable-bare-node-builtins'',
                           js ''--unstable-sloppy-imports'', js ''--dry-run'']"
    using token_not_fixed_flag by simp
  show ?thesis
    using f ev n by simp
qed

text \<open>
  C4: when the download descriptor is resolved and the binary is not at the computed path,
  the first thing \<^verbatim>\<open>publish\<close> does is the recursive deletion of \<^verbatim>\<open>binFolder\<close>. If the
  deletion throws an \<^verbatim>\<open>Error\<close> with code \<^verbatim>\<open>ENOENT\<close>, the download to the computed path comes
  next, and \<^verbatim>\<open>publish\<close> returns when the calls after the deletion go through. If the deletion
  throws anything else, \<^verbatim>\<open>publish\<close> throws that value and has done nothing but the
  deletion.
\<close>

theorem publish_binary_absent:
  assumes "getDenoDownloadUrl w = (Inr info, w1)"
    and "binPath = path_join e [binFolder options, version info, platform e,
                                if platform e = js ''win32'' then js ''deno.exe'' else js ''deno'']"
    and "fst (fileExists binPath w1) = Inr False"
  shows "take 1 (new_events w (snd (publish e cwd options w))) = [Rm (binFolder options)] \<and>
         (\<forall>err. fst (rm e (binFolder options) w1) = Inl err \<longrightarrow>
            (if instanceofError err \<and> code err = Some ENOENT
             then take 2 (new_events w (snd (publish e cwd options w))) =
                    [Rm (binFolder options), Download binPath info] \<and>
                  (set (faults (snd (rm e (binFolder options) w1))) \<subseteq> {None} \<longrightarrow>
                     fst (publish e cwd options w) = Inr ())
             else fst (publish e cwd options w) = Inl err \<and>
                  new_events w (snd (publish e cwd options w)) = [Rm (binFolder options)]))"
proof -
  let ?f = "binFolder options"
  obtain r1 w2 where rm: "rm e ?f w1 = (r1, w2)"
    by (cases "rm e ?f w1")
  obtain r2 w3 where dl: "downloadDeno e binPath info w2 = (r2, w3)"
    by (cases "downloadDeno e binPath info w2")
  obtain r3 w4 where ex: "exec binPath (publish_args options) cwd w3 = (r3, w4)"
    by (cases "exec binPath (publish_args options) cwd w3")
  note run = publish_steps [OF assms rm dl ex]
  have t1: "trace w1 = trace w"
    using getDenoDownloadUrl_keeps [OF assms(1)] by simp
  have t2: "trace w2 = trace w @ [Rm ?f]"
    using rm_effect [of e ?f w1] rm t1 by simp
  have t3: "trace w3 = trace w @ [Rm ?f, Download binPath info]"
    using downloadDeno_effect [of e binPath info w2] dl t2 by simp
  have t4: "trace w4 = trace w @ [Rm ?f, Download binPath info,
                                  Exec binPath (publish_args options) cwd]"
    using exec_effect [of binPath "publish_args options" cwd w3] ex t3 by simp
  have first: "take 1 (new_events w (snd (publish e cwd options w))) = [Rm ?f]"
    unfolding run new_events_def using t2 t3 t4 by (simp split: sum.splits)
  have swallowed: "take 2 (new_events w (snd (publish e cwd options w))) =
                    [Rm ?f, Download binPath info]"
    if "r1 = Inl err" "instanceofError err \<and> code err = Some ENOENT" for err
    unfolding run new_events_def using that t3 t4 by (simp split: sum.splits)
  have through: "fst (publish e cwd options w) = Inr ()"
    if "r1 = Inl err" "instanceofError err \<and> code err = Some ENOENT"
      and "set (faults w2) \<subseteq> {None}" for err
  proof -
    have "r2 = Inr ()"
      using downloadDeno_effect [of e binPath info w2] dl all_through(1) [OF that(3)] by simp
    moreover have "set (faults w3) \<subseteq> {None}"
      using downloadDeno_effect [of e binPath info w2] dl all_through(2) [OF that(3)] by simp
    then have "r3 = Inr ()"
      using exec_effect [of binPath "publish_args options" cwd w3] ex all_through(1) by simp
    ultimately show ?thesis
      unfolding run using that(1,2) by simp
  qed
  have aborted: "fst (publish e cwd options w) = Inl err \<and>
                  new_events w (snd (publish e cwd options w)) = [Rm ?f]"
    if "r1 = Inl err" "\<not> (instanceofError err \<and> code err = Some ENOENT)" for err
    unfolding run new_events_def using that t2 by auto
  show ?thesis
    using first swallowed through aborted rm by simp
qed

theorem publish_binary_absent_witness:
  "getDenoDownloadUrl (empty_world\<lparr>faults := [None, Some not_found]\<rparr>) =
     (Inr deno_info, empty_world\<lparr>faults := [Some not_found]\<rparr>) \<and>
   fst (fileExists (js ''/bin/1.40.0/linux/deno'') (empty_world\<lparr>faults := [Some not_found]\<rparr>)) =
     Inr False \<and>
   fst (rm linux (js ''/bin'') (empty_world\<lparr>faults := [Some not_found]\<rparr>)) = Inl not_found \<and>
   take 2 (new_events (empty_world\<lparr>faults := [None, Some not_found]\<rparr>)
     (snd (publish linux (js ''/proj'')
             \<lparr>binFolder = js ''/bin'', dryRun = False, allowSlowTypes = False, token = None\<rparr>
             (empty_world\<lparr>faults := [None, Some not_found]\<rparr>)))) =
     [Rm (js ''/bin''), Download (js ''/bin/1.40.0/linux/deno'') deno_info] \<and>
   fst (publish linux (js ''/proj'')
          \<lparr>binFolder = js ''/bin'', dryRun = False, allowSlowTypes = False, token = None\<rparr>
          (empty_world\<lparr>faults := [None, Some not_found]\<rparr>)) = Inr () \<and>
   fst (publish linux (js ''/proj'')
          \<lparr>binFolder = js ''/bin'', dryRun = False, allowSlowTypes = False, token = None\<rparr>
          (empty_world\<lparr>faults := [None, Some denied]\<rparr>)) = Inl denied \<and>
   new_events (empty_world\<lparr>faults := [None, Some denied]\<rparr>)
     (snd (publish linux (js ''/proj'')
             \<lparr>binFolder = js ''/bin'', dryRun = False, allowSlowTypes = False, token = None\<rparr>
             (empty_world\<lparr>faults := [None, Some denied]\<rparr>))) = [Rm (js ''/bin'')]"
proof -
  let ?o = "\<lparr>binFolder = js ''/bin'', dryRun = False, allowSlowTypes = False, token = None\<rparr>"
  have p: "js ''/bin/1.40.0/linux/deno'' =
      path_join linux [binFolder ?o, version deno_info, platform linux,
                       if platform linux = js ''win32'' then js ''deno.exe'' else js ''deno'']"
    by (simp add: linux_def deno_info_def js_def)
  have u: "getDenoDownloadUrl (empty_world\<lparr>faults := [None, Some err]\<rparr>) =
             (Inr deno_info, empty_world\<lparr>faults := [Some err]\<rparr>)" for err
    by (simp add: getDenoDownloadUrl_def io_defs empty_world_def)
  have f: "fst (fileExists (js ''/bin/1.40.0/linux/deno'') (empty_world\<lparr>faults := [Some err]\<rparr>)) =
             Inr False" for err
    by (simp add: fileExists_def empty_world_def)
  have r: "fst (rm linux (js ''/bin'') (empty_world\<lparr>faults := [Some err]\<rparr>)) = Inl err \<and>
           faults (snd (rm linux (js ''/bin'') (empty_world\<lparr>faults := [Some err]\<rparr>))) = []" for err
    by (simp add: rm_def io_defs empty_world_def)
  have n: "instanceofError not_found" "code not_found = Some ENOENT"
    by (simp_all add: not_found_def)
  have d: "instanceofError denied" "code denied \<noteq> Some ENOENT"
    by (simp_all add: denied_def ENOENT_def js_def)
  show ?thesis
    using u [of not_found] f [of not_found] r [of not_found] r [of denied]
      publish_binary_absent [OF u [of not_found] p f [of not_found], of "js ''/proj''"]
      publish_binary_absent [OF u [of denied] p f [of denied], of "js ''/proj''"]
    by (simp add: n d)
qed

text \<open>
  C10: when the token is the empty string, every call of the subprocess that \<^verbatim>\<open>publish\<close>
  makes has an argument list without \<^verbatim>\<open>--token\<close>, the list it has when the token is
  undefined.
\<close>

theorem publish_empty_token:
  assumes "token options = Some []"
    and "Exec bin args dir \<in> set (new_events w (snd (publish e cwd options w)))"
  shows "js ''--token'' \<notin> set args \<and> args = publish_args (options\<lparr>token := None\<rparr>)"
proof -
  have a: "args = publish_args options"
    using publish_exec_events [OF assms(2)] .
  have "set (publish_args options) \<subseteq> set [js ''publish'', js ''--unstable-bare-node-builtins'',
     js ''--unstable-sloppy-imports'', js ''--dry-run'', js ''--allow-slow-types'']"
    using assms(1) by (auto simp add: publish_args_eq)
  then have "js ''--token'' \<notin> set (publish_args options)"
    using token_not_fixed_flag by blast
  moreover have "publish_args options = publish_args (options\<lparr>token := None\<rparr>)"
    using assms(1) by (simp add: publish_args_eq)
  ultimately show ?thesis using a by simp
qed

theorem publish_empty_token_witness:
  "Exec (js ''/bin/1.40.0/linux/deno'')
      [js ''publish'', js ''--unstable-bare-node-builtins'', js ''--unstable-sloppy-imports'']
      (js ''/proj'')
     \<in> set (new_events (with_file (js ''/bin/1.40.0/linux/deno'') (js ''ELF''))
          (snd (publish linux (js ''/proj'')
                  \<lparr>binFolder = js ''/bin'', dryRun = False, allowSlowTypes = False,
                     token = Some []\<rparr>
                  (with_file (js ''/bin/1.40.0/linux/deno'') (js ''ELF''))))) \<and>
   js ''--token'' \<notin> set [js ''publish'', js ''--unstable-bare-node-builtins'',
                           js ''--unstable-sloppy-imports'']"
proof -
  let ?w = "with_file (js ''/bin/1.40.0/linux/deno'') (js ''ELF'')"
  let ?o = "\<lparr>binFolder = js ''/bin'', dryRun = False, allowSlowTypes = False,
              token = Some []\<rparr>"
  have u: "getDenoDownloadUrl ?w = (Inr deno_info, ?w)"
    by (simp add: getDenoDownloadUrl_def io_defs with_file_def empty_world_def)
  have p: "js ''/bin/1.40.0/linux/deno'' =
      path_join linux [binFolder ?o, version deno_info, platform linux,
                       if platform linux = js ''win32'' then js ''deno.exe'' else js ''deno'']"
    by (simp add: linux_def deno_info_def js_def)
  have f: "fst (fileExists (js ''/bin/1.40.0/linux/deno'') ?w) = Inr True"
    by (simp add: fileExists_def with_file_def)
  have run: "publish linux (js ''/proj'') ?o ?w =
      (Inr (), ?w\<lparr>trace := [Exec (js ''/bin/1.40.0/linux/deno'')
        [js ''publish'', js ''--unstable-bare-node-builtins'', js ''--unstable-sloppy-imports'']
        (js ''/proj'')]\<rparr>)"
    unfolding publish_present [OF u p f]
    by (simp add: exec_def io_defs with_file_def empty_world_def publish_args_def)
  have ev: "Exec (js ''/bin/1.40.0/linux/deno'')
      [js ''publish'', js ''--unstable-bare-node-builtins'', js ''--unstable-sloppy-imports'']
      (js ''/proj'') \<in> set (new_events ?w (snd (publish linux (js ''/proj'') ?o ?w)))"
    unfolding run by (simp add: new_events_def with_file_def empty_world_def)
  have t: "token ?o = Some []" by simp
  show ?thesis
    using ev publish_empty_token [OF t ev] by blast
qed

end
